theory Spec2Isabelle
  imports Complex_Main "HOL-Library.Sublist"
begin

section \<open>Python string primitives used by the agents\<close>

text \<open>
  A Python \<open>str\<close> is modelled as a \<^typ>\<open>string\<close>; a \<^typ>\<open>char\<close> stands for one code
  point below 256. Python floats are modelled as \<^typ>\<open>real\<close>: the scores are read, averaged
  and compared, and rounding is not part of the model.
\<close>

datatype error =
    GenerationError string   \<comment> \<open>the text generation call failed; the string is \<open>str(e)\<close>\<close>
  | ValueError               \<comment> \<open>\<open>float()\<close> on a string that is no number\<close>
  | IndexError               \<comment> \<open>list index out of range\<close>

fun str_of_error :: "error \<Rightarrow> string" where
  "str_of_error (GenerationError msg) = msg"
| "str_of_error ValueError = ''could not convert string to float''"
| "str_of_error IndexError = ''list index out of range''"

text \<open>\<open>str.isspace\<close> on the code points below 256.\<close>

definition is_space :: "char \<Rightarrow> bool" where
  "is_space c \<longleftrightarrow> c \<in> set [CHR 0x09, CHR 0x0A, CHR 0x0B, CHR 0x0C, CHR 0x0D,
       CHR 0x1C, CHR 0x1D, CHR 0x1E, CHR 0x1F, CHR 0x20, CHR 0x85, CHR 0xA0]"

text \<open>The regular expression class \<open>\d\<close> on the code points below 256.\<close>

definition is_digit :: "char \<Rightarrow> bool" where
  "is_digit c \<longleftrightarrow> c \<in> set ''0123456789''"

text \<open>\<open>s.strip()\<close>\<close>

definition py_strip :: "string \<Rightarrow> string" where
  "py_strip s = rev (dropWhile is_space (rev (dropWhile is_space s)))"

text \<open>\<open>s.split(sep)\<close> for a separator of one character: always at least one piece.\<close>

fun py_split :: "char \<Rightarrow> string \<Rightarrow> string list" where
  "py_split sep [] = [[]]"
| "py_split sep (c # cs) =
     (if c = sep then [] # py_split sep cs
      else (case py_split sep cs of
              [] \<Rightarrow> [[c]]
            | w # ws \<Rightarrow> (c # w) # ws))"

text \<open>\<open>s.startswith(p)\<close>\<close>

definition startswith :: "string \<Rightarrow> string \<Rightarrow> bool" where
  "startswith s p \<longleftrightarrow> take (length p) s = p"

text \<open>
  \<open>s.replace(old, new)\<close> for a non-empty \<open>old\<close>: every occurrence, found from left to
  right without overlap. \<open>skip\<close> counts the characters of an occurrence still to be dropped.
\<close>

fun replace_from :: "nat \<Rightarrow> string \<Rightarrow> string \<Rightarrow> string \<Rightarrow> string" where
  "replace_from skip old new [] = []"
| "replace_from (Suc k) old new (c # cs) = replace_from k old new cs"
| "replace_from 0 old new (c # cs) =
     (if startswith (c # cs) old
      then new @ replace_from (length old - 1) old new cs
      else c # replace_from 0 old new cs)"

definition py_replace :: "string \<Rightarrow> string \<Rightarrow> string \<Rightarrow> string" where
  "py_replace s old new = replace_from 0 old new s"

text \<open>
  \<open>re.search(r'\d+\.?\d*', s)\<close>: the leftmost match. It starts at the first digit, takes
  the whole run of digits, then a dot if one follows, then the digits after the dot.
  \<open>None\<close> when \<open>s\<close> has no digit.
\<close>

definition re_search_number :: "string \<Rightarrow> string option" where
  "re_search_number s =
     (case dropWhile (\<lambda>c. \<not> is_digit c) s of
        [] \<Rightarrow> None
      | t \<Rightarrow>
          (let ip = takeWhile is_digit t in
           (case dropWhile is_digit t of
              c # r \<Rightarrow> if c = CHR ''.'' then Some (ip @ ''.'' @ takeWhile is_digit r) else Some ip
            | [] \<Rightarrow> Some ip)))"

text \<open>The value of a string of decimal digits.\<close>

definition digit_val :: "char \<Rightarrow> nat" where
  "digit_val c = of_char c - 48"

definition digits_val :: "string \<Rightarrow> nat" where
  "digits_val ds = foldl (\<lambda>acc c. 10 * acc + digit_val c) 0 ds"

text \<open>
  \<open>float(s)\<close> on the literals the expression above can match: digits, then possibly a dot
  and more digits. Any other string is answered with \<open>ValueError\<close>; the other literals that
  \<open>float\<close> reads (signs, exponents, \<open>inf\<close>, \<open>nan\<close>) never reach it from the parser.
\<close>

definition py_float :: "string \<Rightarrow> error + real" where
  "py_float s =
     (let ip = takeWhile is_digit s; r = dropWhile is_digit s in
      if ip = [] then Inl ValueError
      else if r = [] then Inr (real (digits_val ip))
      else if hd r = CHR ''.'' \<and> list_all is_digit (tl r)
      then Inr (real (digits_val ip) + real (digits_val (tl r)) / 10 ^ length (tl r))
      else Inl ValueError)"

section \<open>Editor agent: the feedback parser\<close>

text \<open>
  The feedback dictionary has the keys \<open>score\<close>, \<open>issues\<close>, \<open>suggestions\<close>, \<open>strengths\<close>
  and, once \<open>review\<close> has stamped it, \<open>iteration\<close> (\<open>None\<close> while the key is absent).
\<close>

record feedback =
  score :: real
  issues :: "string list"
  suggestions :: "string list"
  strengths :: "string list"
  iteration :: "nat option"

datatype review_section = Issues | Suggestions | Strengths

definition default_feedback :: feedback where
  "default_feedback = \<lparr>score = 5.0, issues = [], suggestions = [], strengths = [], iteration = None\<rparr>"

text \<open>\<open>feedback[current_section].append(item)\<close>\<close>

fun append_item :: "review_section \<Rightarrow> string \<Rightarrow> feedback \<Rightarrow> feedback" where
  "append_item Issues item fb = fb\<lparr>issues := issues fb @ [item]\<rparr>"
| "append_item Suggestions item fb = fb\<lparr>suggestions := suggestions fb @ [item]\<rparr>"
| "append_item Strengths item fb = fb\<lparr>strengths := strengths fb @ [item]\<rparr>"

text \<open>
  The body of the \<open>try\<close> on a \<open>SCORE:\<close> line: the number found, \<open>None\<close> when there is no
  match, or the exception \<open>float\<close> raised.
\<close>

definition score_of_line :: "string \<Rightarrow> error + real option" where
  "score_of_line line =
     (let score_text = py_strip (py_replace line ''SCORE:'' '''') in
      (case re_search_number score_text of
         None \<Rightarrow> Inr None
       | Some m \<Rightarrow> (case py_float m of Inl e \<Rightarrow> Inl e | Inr v \<Rightarrow> Inr (Some v))))"

text \<open>One turn of the loop over the lines; the state is the dictionary and \<open>current_section\<close>.\<close>

definition parse_line :: "feedback \<times> review_section option \<Rightarrow> string \<Rightarrow> feedback \<times> review_section option" where
  "parse_line st raw =
     (let fb = fst st; current_section = snd st; line = py_strip raw in
      if startswith line ''SCORE:'' then
        (case score_of_line line of
           Inl e \<Rightarrow> (fb, current_section)                    \<comment> \<open>\<open>except: pass\<close>\<close>
         | Inr None \<Rightarrow> (fb, current_section)
         | Inr (Some v) \<Rightarrow> (fb\<lparr>score := v\<rparr>, current_section))
      else if line = ''ISSUES:'' then (fb, Some Issues)
      else if line = ''SUGGESTIONS:'' then (fb, Some Suggestions)
      else if line = ''STRENGTHS:'' then (fb, Some Strengths)
      else if startswith line ''- '' \<and> current_section \<noteq> None then
        (case current_section of
           Some sec \<Rightarrow>
             (let item = py_strip (drop 2 line) in
              if item \<noteq> [] then (append_item sec item fb, current_section)
              else (fb, current_section))
         | None \<Rightarrow> (fb, current_section))
      else (fb, current_section))"

text \<open>
  \<open>EditorAgent._parse_review\<close>. The result is a sum so that a caller's \<open>try\<close> can be
  modelled; every exception of the body is caught inside, so the result is always \<open>Inr\<close>.
\<close>

definition parse_review :: "string \<Rightarrow> error + feedback" where
  "parse_review review_text =
     Inr (fst (foldl parse_line (default_feedback, None) (py_split CHR ''\<newline>'' review_text)))"

section \<open>Memory bank\<close>

text \<open>
  The dictionaries kept in the memory bank have fixed keys and are modelled as records; the
  empty dictionary \<open>{}\<close> is \<open>None\<close>.
\<close>

record research_brief =
  rb_topic :: string
  findings :: string
  key_points :: "string list"
  sources :: "string list"
  timestamp :: string

record seo_record =
  seo_keywords :: "string list"
  seo_topic :: string
  optimized :: bool

record memory_bank =
  style_guide :: string
  research_data :: "research_brief option"
  drafts :: "string list"
  seo_data :: "seo_record option"
  editor_feedback :: "feedback list"

definition MemoryBank :: "string \<Rightarrow> memory_bank" where
  "MemoryBank sg =
     \<lparr>style_guide = sg, research_data = None, drafts = [], seo_data = None, editor_feedback = []\<rparr>"

text \<open>\<open>xs[-1]\<close>: raises on the empty list.\<close>

definition py_last :: "'a list \<Rightarrow> error + 'a" where
  "py_last xs = (case xs of [] \<Rightarrow> Inl IndexError | _ # _ \<Rightarrow> Inr (last xs))"

definition store_research :: "research_brief \<Rightarrow> memory_bank \<Rightarrow> memory_bank" where
  "store_research d m = m\<lparr>research_data := Some d\<rparr>"

definition get_research :: "memory_bank \<Rightarrow> research_brief option" where
  "get_research m = research_data m"

definition add_draft :: "string \<Rightarrow> memory_bank \<Rightarrow> memory_bank" where
  "add_draft draft m = m\<lparr>drafts := drafts m @ [draft]\<rparr>"

definition get_latest_draft :: "memory_bank \<Rightarrow> error + string" where
  "get_latest_draft m = (if drafts m \<noteq> [] then py_last (drafts m) else Inr [])"

definition get_all_drafts :: "memory_bank \<Rightarrow> string list" where
  "get_all_drafts m = drafts m"

definition store_seo_data :: "seo_record \<Rightarrow> memory_bank \<Rightarrow> memory_bank" where
  "store_seo_data d m = m\<lparr>seo_data := Some d\<rparr>"

definition get_seo_data :: "memory_bank \<Rightarrow> seo_record option" where
  "get_seo_data m = seo_data m"

definition add_editor_feedback :: "feedback \<Rightarrow> memory_bank \<Rightarrow> memory_bank" where
  "add_editor_feedback fb m = m\<lparr>editor_feedback := editor_feedback m @ [fb]\<rparr>"

text \<open>The result \<open>None\<close> is the empty dictionary.\<close>

definition get_latest_feedback :: "memory_bank \<Rightarrow> error + feedback option" where
  "get_latest_feedback m =
     (if editor_feedback m \<noteq> [] then map_sum id Some (py_last (editor_feedback m)) else Inr None)"

definition get_feedback_count :: "memory_bank \<Rightarrow> nat" where
  "get_feedback_count m = length (editor_feedback m)"

definition clear :: "memory_bank \<Rightarrow> memory_bank" where
  "clear m = m\<lparr>research_data := None, drafts := [], seo_data := None, editor_feedback := []\<rparr>"

section \<open>Configuration and the text generation port\<close>

text \<open>
  What a generation call returns: the text of the response and, for a grounded call, the
  grounding metadata of its first candidate.
\<close>

datatype web_chunk =
    NoWeb                    \<comment> \<open>a chunk without the attribute \<open>web\<close>\<close>
  | Web "string option"      \<comment> \<open>\<open>chunk.web\<close>, with its \<open>uri\<close> when it has one\<close>

record grounding =
  search_entry_point :: bool                    \<comment> \<open>the attribute is present\<close>
  grounding_chunks :: "web_chunk list option"

record response =
  resp_text :: string
  grounding_metadata :: "grounding option"

text \<open>The metadata of the article, as the controller assembles it for the formatter.\<close>

record metadata =
  md_title :: string
  md_date :: string
  md_keywords :: "string list"
  md_sources :: "string list"

text \<open>
  The environment of a run: the two constants of \<open>config.py\<close> that steer the loop, the
  functions of the module \<open>utils\<close> the agents import (that module is outside the
  verified sources, so they are parameters), and the text generation port. The port is opaque:
  \<open>generate_content env n\<close> is the outcome of the \<open>n\<close>-th call of the run, a response or
  a failure. The prompt of a call is not modelled, since nothing is assumed about how the
  outcome depends on it.
\<close>

record env =
  MAX_EDITOR_ITERATIONS :: nat
  QUALITY_THRESHOLD :: real
  calculate_quality_score :: "string \<Rightarrow> real"
  compact_research_context :: "string list \<Rightarrow> string"
  format_research_brief :: "string \<Rightarrow> string \<Rightarrow> string list \<Rightarrow> research_brief"
  format_output_article :: "string \<Rightarrow> metadata \<Rightarrow> string"
  generate_content :: "nat \<Rightarrow> error + response"

definition DEFAULT_STYLE_GUIDE :: string where
  "DEFAULT_STYLE_GUIDE =
     ''\<newline>Writing Style Guidelines:\<newline>'' @
     ''- Tone: Professional yet conversational\<newline>'' @
     ''- Target Audience: Tech-savvy professionals and content creators\<newline>'' @
     ''- Length: 1200-1800 words\<newline>'' @
     ''- Structure: Introduction, 3-5 main sections, Conclusion\<newline>'' @
     ''- Use headers (H2, H3) for organization\<newline>'' @
     ''- Include bullet points for key takeaways\<newline>'' @
     ''- Cite sources when mentioning statistics or research\<newline>''"

text \<open>
  The state a run threads through its stages: the memory bank and the number of generation
  calls made so far.
\<close>

record world =
  mem :: memory_bank
  calls :: nat

definition generate :: "env \<Rightarrow> world \<Rightarrow> (error + response) \<times> world" where
  "generate e w = (generate_content e (calls w), w\<lparr>calls := Suc (calls w)\<rparr>)"

section \<open>Researcher agent\<close>

definition fallback_research :: "env \<Rightarrow> string \<Rightarrow> world \<Rightarrow> research_brief \<times> world" where
  "fallback_research e topic w =
     (case generate e w of
        (Inr rsp, w1) \<Rightarrow>
          (format_research_brief e topic (resp_text rsp) [''Model Training Data (Pre-2023)''], w1)
      | (Inl err, w1) \<Rightarrow>
          (\<lparr>rb_topic = topic,
            findings = ''Research on '' @ topic @ '' - please provide manual input'',
            key_points = [],
            sources = [],
            timestamp = ''2025-11-29''\<rparr>, w1))"

fun chunk_source :: "web_chunk \<Rightarrow> string list" where
  "chunk_source NoWeb = []"
| "chunk_source (Web (Some uri)) = [uri]"
| "chunk_source (Web None) = [''Web Source'']"

definition extract_sources :: "response \<Rightarrow> string list" where
  "extract_sources rsp =
     (case grounding_metadata rsp of
        None \<Rightarrow> []
      | Some g \<Rightarrow>
          (if search_entry_point g then [''Google Search''] else []) @
          (case grounding_chunks g of
             None \<Rightarrow> []
           | Some chunks \<Rightarrow> concat (map chunk_source (take 5 chunks))))"

definition research :: "env \<Rightarrow> string \<Rightarrow> world \<Rightarrow> research_brief \<times> world" where
  "research e topic w =
     (case generate e w of
        (Inr rsp, w1) \<Rightarrow>
          (let findings_text = resp_text rsp;
               srcs = extract_sources rsp;
               compacted_findings = compact_research_context e [findings_text];
               brief = format_research_brief e topic compacted_findings srcs
           in (brief, w1\<lparr>mem := store_research brief (mem w1)\<rparr>))
      | (Inl err, w1) \<Rightarrow>
          (case fallback_research e topic w1 of
             (fallback_brief, w2) \<Rightarrow>
               (fallback_brief, w2\<lparr>mem := store_research fallback_brief (mem w2)\<rparr>)))"

section \<open>Writer agent\<close>

definition create_initial_draft ::
    "env \<Rightarrow> research_brief option \<Rightarrow> string \<Rightarrow> world \<Rightarrow> string \<times> world" where
  "create_initial_draft e rsrch sg w =
     (let topic = (case rsrch of Some rb \<Rightarrow> rb_topic rb | None \<Rightarrow> ''Unknown Topic'') in
      (case generate e w of
         (Inr rsp, w1) \<Rightarrow> (resp_text rsp, w1)
       | (Inl err, w1) \<Rightarrow>
           (''# '' @ topic @ ''\<newline>\<newline>[Draft generation failed: '' @ str_of_error err @ '']'',
            w1)))"

definition revise_draft :: "env \<Rightarrow> world \<Rightarrow> feedback \<Rightarrow> string \<Rightarrow> error + string \<times> world" where
  "revise_draft e w fb sg =
     (case get_latest_draft (mem w) of
        Inl err \<Rightarrow> Inl err
      | Inr current_draft \<Rightarrow>
          (case generate e w of
             (Inr rsp, w1) \<Rightarrow> Inr (resp_text rsp, w1)
           | (Inl err, w1) \<Rightarrow> Inr (current_draft, w1)))"

text \<open>\<open>editor_feedback\<close> is \<open>None\<close> for the first draft, the record of the review otherwise.\<close>

definition write_draft :: "env \<Rightarrow> world \<Rightarrow> feedback option \<Rightarrow> error + string \<times> world" where
  "write_draft e w fbo =
     (let rsrch = get_research (mem w); sg = style_guide (mem w) in
      (case fbo of
         Some fb \<Rightarrow> revise_draft e w fb sg
       | None \<Rightarrow> Inr (create_initial_draft e rsrch sg w)))"

section \<open>SEO agent\<close>

text \<open>\<open>str.lower\<close> on the code points below 256.\<close>

definition py_lower_char :: "char \<Rightarrow> char" where
  "py_lower_char c =
     (let n = (of_char c :: nat) in
      if (65 \<le> n \<and> n \<le> 90) \<or> (192 \<le> n \<and> n \<le> 222 \<and> n \<noteq> 215) then char_of (n + 32) else c)"

definition py_lower :: "string \<Rightarrow> string" where
  "py_lower s = map py_lower_char s"

definition identify_keywords :: "env \<Rightarrow> string \<Rightarrow> string \<Rightarrow> world \<Rightarrow> string list \<times> world" where
  "identify_keywords e topic draft w =
     (case generate e w of
        (Inr rsp, w1) \<Rightarrow>
          (let keywords_text = py_strip (resp_text rsp);
               keywords = map py_strip (py_split CHR '','' keywords_text)
           in (take 10 keywords, w1))
      | (Inl err, w1) \<Rightarrow> ([py_lower topic, ''blog'', ''guide'', ''tutorial''], w1))"

definition optimize_content ::
    "env \<Rightarrow> string \<Rightarrow> string list \<Rightarrow> string \<Rightarrow> world \<Rightarrow> string \<times> world" where
  "optimize_content e draft keywords topic w =
     (case generate e w of
        (Inr rsp, w1) \<Rightarrow> (resp_text rsp, w1)
      | (Inl err, w1) \<Rightarrow> (draft, w1))"

definition optimize :: "env \<Rightarrow> string \<Rightarrow> string \<Rightarrow> world \<Rightarrow> string \<times> world" where
  "optimize e draft topic w =
     (case identify_keywords e topic draft w of
        (keywords, w1) \<Rightarrow>
          (case optimize_content e draft keywords topic w1 of
             (optimized_draft, w2) \<Rightarrow>
               (let seo = \<lparr>seo_keywords = keywords, seo_topic = topic, optimized = True\<rparr>
                in (optimized_draft, w2\<lparr>mem := store_seo_data seo (mem w2)\<rparr>))))"

record meta_tags =
  meta_title :: string
  meta_description :: string

definition meta_line :: "meta_tags \<Rightarrow> string \<Rightarrow> meta_tags" where
  "meta_line meta_data line =
     (if startswith line ''TITLE:''
      then meta_data\<lparr>meta_title := py_strip (py_replace line ''TITLE:'' '''')\<rparr>
      else if startswith line ''DESCRIPTION:''
      then meta_data\<lparr>meta_description := py_strip (py_replace line ''DESCRIPTION:'' '''')\<rparr>
      else meta_data)"

definition generate_meta_tags ::
    "env \<Rightarrow> string \<Rightarrow> string list \<Rightarrow> string \<Rightarrow> world \<Rightarrow> meta_tags \<times> world" where
  "generate_meta_tags e draft keywords topic w =
     (case generate e w of
        (Inr rsp, w1) \<Rightarrow>
          (foldl meta_line \<lparr>meta_title = topic, meta_description = []\<rparr>
             (py_split CHR ''\<newline>'' (resp_text rsp)), w1)
      | (Inl err, w1) \<Rightarrow>
          (\<lparr>meta_title = topic,
            meta_description = ''Learn about '' @ topic @ '' in this comprehensive guide.''\<rparr>, w1))"

section \<open>Editor agent: the review\<close>

definition detailed_review :: "env \<Rightarrow> string \<Rightarrow> world \<Rightarrow> feedback \<times> world" where
  "detailed_review e draft w =
     (case generate e w of
        (r, w1) \<Rightarrow>
          (case (case r of Inl err \<Rightarrow> Inl err | Inr rsp \<Rightarrow> parse_review (resp_text rsp)) of
             Inr fb \<Rightarrow> (fb, w1)
           | Inl err \<Rightarrow>
               (\<lparr>score = 6.0,
                 issues = [''Review error: '' @ str_of_error err],
                 suggestions = [''Manual review recommended''],
                 strengths = [],
                 iteration = None\<rparr>, w1)))"

definition review :: "env \<Rightarrow> string \<Rightarrow> world \<Rightarrow> bool \<times> feedback \<times> world" where
  "review e draft w =
     (let iter = get_feedback_count (mem w) + 1;
          basic_score = calculate_quality_score e draft
      in (case detailed_review e draft w of
            (detailed_feedback, w1) \<Rightarrow>
              (let ai_score = score detailed_feedback;
                   final_score = (basic_score + ai_score) / 2;
                   fb = detailed_feedback\<lparr>score := final_score, iteration := Some iter\<rparr>;
                   w2 = w1\<lparr>mem := add_editor_feedback fb (mem w1)\<rparr>;
                   approved = (final_score \<ge> QUALITY_THRESHOLD e)
               in (if approved then True
                   else if iter \<ge> MAX_EDITOR_ITERATIONS e then True
                   else approved,
                   fb, w2))))"

section \<open>Pipeline controller\<close>

text \<open>
  The \<open>while\<close> loop of \<open>run_blog_pipeline\<close>. The state is \<open>approved\<close>, the local counter
  \<open>iteration\<close> and the world. An exception leaves the loop as \<open>Inl\<close>.
\<close>

function review_loop :: "env \<Rightarrow> bool \<Rightarrow> nat \<Rightarrow> world \<Rightarrow> error + bool \<times> nat \<times> world" where
  "review_loop e approved iter w =
     (if \<not> approved \<and> iter < MAX_EDITOR_ITERATIONS e then
        (case get_latest_draft (mem w) of
           Inl err \<Rightarrow> Inl err
         | Inr current_draft \<Rightarrow>
             (case review e current_draft w of
                (approved1, fb, w1) \<Rightarrow>
                  if \<not> approved1 then
                    (case write_draft e w1 (Some fb) of
                       Inl err \<Rightarrow> Inl err
                     | Inr (revised_draft, w2) \<Rightarrow>
                         review_loop e approved1 (iter + 1)
                           (w2\<lparr>mem := add_draft revised_draft (mem w2)\<rparr>))
                  else review_loop e approved1 (iter + 1) w1))
      else Inr (approved, iter, w))"
  by pat_completeness auto
termination
  by (relation "measure (\<lambda>(e, approved, iter, w). MAX_EDITOR_ITERATIONS e - iter)") auto

declare review_loop.simps [simp del]

text \<open>What the run hands to the final output stage.\<close>

record pipeline_result =
  final_memory :: memory_bank
  loop_approved :: bool
  loop_iterations :: nat
  brief_returned :: research_brief
  final_draft :: string
  final_meta_tags :: meta_tags
  final_metadata :: metadata
  final_article :: string

text \<open>
  \<open>run_blog_pipeline\<close> up to the text of the article; writing the file is input and output
  and is left out. \<open>Inl\<close> is the handler that ends the process with \<open>Pipeline failed\<close>.
\<close>

definition run_blog_pipeline :: "env \<Rightarrow> string \<Rightarrow> string option \<Rightarrow> error + pipeline_result" where
  "run_blog_pipeline e topic sgo =
     (let memory = MemoryBank (case sgo of
                                 Some sg \<Rightarrow> if sg \<noteq> [] then sg else DEFAULT_STYLE_GUIDE
                               | None \<Rightarrow> DEFAULT_STYLE_GUIDE);
          w0 = \<lparr>mem = memory, calls = 0\<rparr>
      in (case research e topic w0 of
            (brief, w1) \<Rightarrow>
      (case write_draft e w1 None of
         Inl err \<Rightarrow> Inl err
       | Inr (initial_draft, w2) \<Rightarrow>
      (let w3 = w2\<lparr>mem := add_draft initial_draft (mem w2)\<rparr> in
      (case optimize e initial_draft topic w3 of
         (optimized_draft, w4) \<Rightarrow>
      (let w5 = w4\<lparr>mem := add_draft optimized_draft (mem w4)\<rparr> in
      (case review_loop e False 0 w5 of
         Inl err \<Rightarrow> Inl err
       | Inr (approved, iter, w6) \<Rightarrow>
      (case get_latest_draft (mem w6) of
         Inl err \<Rightarrow> Inl err
       | Inr final \<Rightarrow>
      (let keywords = (case get_seo_data (mem w6) of Some sd \<Rightarrow> seo_keywords sd | None \<Rightarrow> []) in
      (case generate_meta_tags e final keywords topic w6 of
         (tags, w7) \<Rightarrow>
      (let md = \<lparr>md_title = meta_title tags,
                 md_date = ''2025-11-29'',
                 md_keywords = keywords,
                 md_sources = sources brief\<rparr>
       in Inr \<lparr>final_memory = mem w7,
               loop_approved = approved,
               loop_iterations = iter,
               brief_returned = brief,
               final_draft = final,
               final_meta_tags = tags,
               final_metadata = md,
               final_article = format_output_article e final md\<rparr>)))))))))))"

section \<open>Predicates used to state the properties\<close>

text \<open>
  A line that the parser recognises as the start of a labelled section: after stripping, it
  starts with \<open>SCORE:\<close> or it is one of the three list headers.
\<close>

definition is_header_line :: "string \<Rightarrow> bool" where
  "is_header_line raw \<longleftrightarrow>
     (let line = py_strip raw in
      startswith line ''SCORE:'' \<or> line = ''ISSUES:'' \<or> line = ''SUGGESTIONS:'' \<or> line = ''STRENGTHS:'')"

definition no_headers :: "string \<Rightarrow> bool" where
  "no_headers review_text \<longleftrightarrow>
     list_all (\<lambda>raw. \<not> is_header_line raw) (py_split CHR ''\<newline>'' review_text)"

text \<open>
  The histories of one state of the memory bank extend those of an earlier one: the earlier
  lists of drafts and of feedback records are prefixes of the later ones, so every stored
  element is still there, unchanged and at the same index.
\<close>

definition history_extends :: "memory_bank \<Rightarrow> memory_bank \<Rightarrow> bool" where
  "history_extends m m' \<longleftrightarrow>
     prefix (drafts m) (drafts m') \<and> prefix (editor_feedback m) (editor_feedback m')"

section \<open>Environments for concrete runs\<close>

text \<open>
  Stand-ins for the parameters of a run, used to evaluate the pipeline on concrete inputs:
  the quality scorer is constant, the research helpers keep the text they are given, and the
  formatter returns the body. \<open>always_fails\<close> is a port whose every call fails with the same
  message; \<open>replies\<close> is a port that answers its calls with the texts of a list, in order,
  and fails afterwards.
\<close>

definition stub_env :: "nat \<Rightarrow> real \<Rightarrow> real \<Rightarrow> (nat \<Rightarrow> error + response) \<Rightarrow> env" where
  "stub_env k thr s port =
     \<lparr>MAX_EDITOR_ITERATIONS = k,
      QUALITY_THRESHOLD = thr,
      calculate_quality_score = (\<lambda>_. s),
      compact_research_context = concat,
      format_research_brief = (\<lambda>t f srcs.
        \<lparr>rb_topic = t, findings = f, key_points = [], sources = srcs, timestamp = ''2025-11-29''\<rparr>),
      format_output_article = (\<lambda>d md. d),
      generate_content = port\<rparr>"

definition always_fails :: "string \<Rightarrow> nat \<Rightarrow> error + response" where
  "always_fails msg n = Inl (GenerationError msg)"

definition replies :: "string list \<Rightarrow> nat \<Rightarrow> error + response" where
  "replies texts n =
     (if n < length texts then Inr \<lparr>resp_text = texts ! n, grounding_metadata = None\<rparr>
      else Inl (GenerationError ''no more replies''))"


section \<open>Properties of the memory bank\<close>

lemma py_last_nonempty: "xs \<noteq> [] \<Longrightarrow> py_last xs = Inr (last xs)"
  by (cases xs) (simp_all add: py_last_def)

lemma get_latest_draft_total:
  "get_latest_draft m = Inr (if drafts m = [] then [] else last (drafts m))"
  by (simp add: get_latest_draft_def py_last_nonempty)

lemma get_latest_feedback_total:
  "get_latest_feedback m =
     Inr (if editor_feedback m = [] then None else Some (last (editor_feedback m)))"
  by (simp add: get_latest_feedback_def py_last_nonempty)

text \<open>
  Claim C10. The two accessors of the memory bank return a value in every state of the store,
  so no reader ever meets an index out of range. On a store without drafts
  \<open>get_latest_draft\<close> returns the empty string, and on a store without feedback records
  \<open>get_latest_feedback\<close> returns the empty dictionary; both hold in particular for a
  freshly created memory bank.
\<close>

theorem C10_accessors_total_on_empty:
  "(\<exists>d. get_latest_draft m = Inr d) \<and>
   (\<exists>f. get_latest_feedback m = Inr f) \<and>
   get_latest_draft (m\<lparr>drafts := []\<rparr>) = Inr [] \<and>
   get_latest_feedback (m\<lparr>editor_feedback := []\<rparr>) = Inr None \<and>
   get_latest_draft (MemoryBank sg) = Inr [] \<and>
   get_latest_feedback (MemoryBank sg) = Inr None"
  by (simp add: get_latest_draft_total get_latest_feedback_total MemoryBank_def)

section \<open>Properties of the feedback parser\<close>

lemma parse_line_plain:
  "\<not> is_header_line raw \<Longrightarrow> parse_line (fb, None) raw = (fb, None)"
  by (simp add: parse_line_def is_header_line_def Let_def)

lemma foldl_parse_line_plain:
  "list_all (\<lambda>raw. \<not> is_header_line raw) ls \<Longrightarrow> foldl parse_line (fb, None) ls = (fb, None)"
  by (induction ls) (simp_all add: parse_line_plain)

text \<open>
  Claim C4. The feedback parser returns a record for every input string: it never raises.
  For the input \<open>no recognizable sections\<close>, and for every input none of whose lines is a
  section header, the result is the default record: score 5.0 and empty lists of issues,
  suggestions and strengths.
\<close>

theorem C4_parser_tolerance:
  "(\<exists>fb. parse_review review_text = Inr fb) \<and>
   parse_review ''no recognizable sections'' = Inr default_feedback \<and>
   (no_headers review_text \<longrightarrow> parse_review review_text = Inr default_feedback)"
proof (intro conjI impI)
  show "\<exists>fb. parse_review review_text = Inr fb"
    by (simp add: parse_review_def)
  show "parse_review ''no recognizable sections'' = Inr default_feedback"
    by code_simp
  assume "no_headers review_text"
  then show "parse_review review_text = Inr default_feedback"
    by (simp add: no_headers_def parse_review_def foldl_parse_line_plain)
qed

theorem C4_parser_tolerance_witness:
  "no_headers ''Looks fine to me.\<newline>- nothing to add\<newline>Overall score: 9'' \<and>
   parse_review ''Looks fine to me.\<newline>- nothing to add\<newline>Overall score: 9'' =
     Inr default_feedback"
proof -
  have h: "no_headers ''Looks fine to me.\<newline>- nothing to add\<newline>Overall score: 9''"
    by code_simp
  with C4_parser_tolerance [of "''Looks fine to me.\<newline>- nothing to add\<newline>Overall score: 9''"]
  show ?thesis by simp
qed

lemma startswith_prefix: "startswith s p \<longleftrightarrow> prefix p s"
  unfolding startswith_def prefix_def
  by (metis append_eq_conv_conj append_take_drop_id)

lemma replace_from_no_occurrence:
  "\<not> sublist old s \<Longrightarrow> replace_from 0 old new s = s"
proof (induction s)
  case Nil
  then show ?case by simp
next
  case (Cons c cs)
  have "\<not> prefix old (c # cs)"
    using Cons.prems by (meson prefix_imp_sublist)
  moreover have "\<not> sublist old cs"
    using Cons.prems by (meson sublist_Cons_right)
  ultimately show ?case
    using Cons.IH by (simp add: startswith_prefix)
qed

lemma replace_SCORE_head:
  "py_replace (''SCORE:'' @ s) ''SCORE:'' [] = replace_from 0 ''SCORE:'' [] s"
  by (simp add: py_replace_def startswith_def)

lemma digit_not_space: "is_digit c \<Longrightarrow> \<not> is_space c"
  by (auto simp: is_digit_def is_space_def)

lemma rstrip_of_strip: "dropWhile is_space (rev (py_strip s)) = rev (py_strip s)"
  by (simp add: py_strip_def)

lemma last_strip_not_space:
  assumes "py_strip s = xs @ ys" "ys \<noteq> []"
  shows "\<not> is_space (last ys)"
proof -
  have "dropWhile is_space (rev ys @ rev xs) = rev ys @ rev xs"
    using rstrip_of_strip [of s] assms(1) by simp
  moreover have "rev ys @ rev xs \<noteq> []" using assms(2) by simp
  ultimately have "\<not> is_space (hd (rev ys @ rev xs))"
    by (metis hd_dropWhile)
  then show ?thesis using assms(2) by (simp add: hd_rev)
qed

lemma strip_body:
  assumes "body \<noteq> []" "\<not> is_space (hd body)" "\<not> is_space (last body)"
  shows "py_strip (pre @ body) = dropWhile is_space pre @ body"
proof -
  let ?s = "dropWhile is_space pre @ body"
  have l: "dropWhile is_space (pre @ body) = ?s"
    using assms(1,2) by (cases body) (simp_all add: dropWhile_append)
  have "hd (rev ?s) = last body" using assms(1) by (simp add: hd_rev)
  then have "\<not> is_space (hd (rev ?s))" using assms(3) by simp
  moreover have "rev ?s \<noteq> []" using assms(1) by simp
  ultimately have "dropWhile is_space (rev ?s) = rev ?s"
    by (cases "rev ?s") simp_all
  then show ?thesis by (simp add: py_strip_def l)
qed







text \<open>
  The text in which a \<open>SCORE:\<close> line is searched for a number: what follows the label, without
  the white space in front of it.
\<close>

lemma score_text:
  assumes line: "py_strip raw = ''SCORE:'' @ pre @ ip @ t"
    and ip: "ip \<noteq> []" "list_all is_digit ip"
    and once: "\<not> sublist ''SCORE:'' (pre @ ip @ t)"
  shows "py_strip (py_replace (py_strip raw) ''SCORE:'' []) = dropWhile is_space pre @ ip @ t"
proof -
  have r: "py_replace (py_strip raw) ''SCORE:'' [] = pre @ ip @ t"
    unfolding line replace_SCORE_head using once by (rule replace_from_no_occurrence)
  have ne: "ip @ t \<noteq> []" using ip(1) by simp
  have "is_digit (hd ip)" using ip by (cases ip) simp_all
  then have h: "\<not> is_space (hd (ip @ t))" using ip(1) by (simp add: digit_not_space)
  have "py_strip raw = (''SCORE:'' @ pre) @ (ip @ t)" unfolding line by simp
  then have l: "\<not> is_space (last (ip @ t))" using ne by (rule last_strip_not_space)
  show ?thesis unfolding r by (rule strip_body [OF ne h l])
qed









section \<open>Properties of the stages\<close>

lemma history_extends_refl: "history_extends m m"
  by (simp add: history_extends_def)

lemma history_extends_trans:
  "history_extends m1 m2 \<Longrightarrow> history_extends m2 m3 \<Longrightarrow> history_extends m1 m3"
  unfolding history_extends_def by (meson prefix_order.trans)

lemma history_extends_length:
  "history_extends m m' \<Longrightarrow>
     length (drafts m) \<le> length (drafts m') \<and>
     length (editor_feedback m) \<le> length (editor_feedback m')"
  by (simp add: history_extends_def prefix_length_le)

lemma mutators_extend:
  "history_extends m (store_research d m)"
  "history_extends m (add_draft draft m)"
  "history_extends m (store_seo_data sd m)"
  "history_extends m (add_editor_feedback fb m)"
  by (simp_all add: history_extends_def store_research_def add_draft_def store_seo_data_def
      add_editor_feedback_def)

lemma generate_mem: "mem (snd (generate e w)) = mem w"
  by (simp add: generate_def)

lemma fallback_research_mem: "mem (snd (fallback_research e topic w)) = mem w"
  by (simp add: fallback_research_def generate_def split: sum.splits)

lemma research_mem:
  "mem (snd (research e topic w)) = store_research (fst (research e topic w)) (mem w)"
  using fallback_research_mem [of e topic "w\<lparr>calls := Suc (calls w)\<rparr>"]
  by (auto simp: research_def generate_def Let_def split: sum.splits prod.splits)

lemma create_initial_draft_mem: "mem (snd (create_initial_draft e r sg w)) = mem w"
  by (simp add: create_initial_draft_def generate_def Let_def split: sum.splits)

lemma revise_draft_total:
  "\<exists>d w'. revise_draft e w fb sg = Inr (d, w') \<and> mem w' = mem w"
  by (simp add: revise_draft_def get_latest_draft_total generate_def split: sum.splits)

lemma write_draft_total:
  "\<exists>d w'. write_draft e w fbo = Inr (d, w') \<and> mem w' = mem w"
proof (cases fbo)
  case None
  then show ?thesis
    using create_initial_draft_mem [of e "get_research (mem w)" "style_guide (mem w)" w]
    by (cases "create_initial_draft e (get_research (mem w)) (style_guide (mem w)) w")
       (simp add: write_draft_def Let_def)
next
  case (Some fb)
  then show ?thesis
    using revise_draft_total [of e w fb "style_guide (mem w)"]
    by (simp add: write_draft_def Let_def)
qed

lemma identify_keywords_mem: "mem (snd (identify_keywords e topic draft w)) = mem w"
  by (simp add: identify_keywords_def generate_def Let_def split: sum.splits)

lemma optimize_content_mem: "mem (snd (optimize_content e draft kws topic w)) = mem w"
  by (simp add: optimize_content_def generate_def split: sum.splits)

lemma optimize_mem:
  "\<exists>sd. mem (snd (optimize e draft topic w)) = store_seo_data sd (mem w)"
proof -
  obtain kws w1 where k: "identify_keywords e topic draft w = (kws, w1)"
    by (cases "identify_keywords e topic draft w")
  obtain od w2 where c: "optimize_content e draft kws topic w1 = (od, w2)"
    by (cases "optimize_content e draft kws topic w1")
  have "mem w1 = mem w" using identify_keywords_mem [of e topic draft w] k by simp
  moreover have "mem w2 = mem w1" using optimize_content_mem [of e draft kws topic w1] c by simp
  ultimately show ?thesis by (auto simp: optimize_def k c Let_def)
qed

lemma generate_meta_tags_mem: "mem (snd (generate_meta_tags e draft kws topic w)) = mem w"
  by (simp add: generate_meta_tags_def generate_def split: sum.splits)

lemma detailed_review_mem: "mem (snd (detailed_review e draft w)) = mem w"
  by (simp add: detailed_review_def generate_def parse_review_def split: sum.splits)

lemma review_mem:
  "mem (snd (snd (review e draft w))) = add_editor_feedback (fst (snd (review e draft w))) (mem w)"
  using detailed_review_mem [of e draft w]
  by (cases "detailed_review e draft w") (simp add: review_def Let_def)

lemma review_approved:
  "fst (review e draft w) \<longleftrightarrow>
     (calculate_quality_score e draft + score (fst (detailed_review e draft w))) / 2
        \<ge> QUALITY_THRESHOLD e
     \<or> get_feedback_count (mem w) + 1 \<ge> MAX_EDITOR_ITERATIONS e"
  by (cases "detailed_review e draft w") (simp add: review_def Let_def)

lemma review_feedback:
  "fst (snd (review e draft w)) =
     (fst (detailed_review e draft w))
       \<lparr>score := (calculate_quality_score e draft + score (fst (detailed_review e draft w))) / 2,
        iteration := Some (get_feedback_count (mem w) + 1)\<rparr>"
  by (cases "detailed_review e draft w") (simp add: review_def Let_def)

section \<open>Properties of the review loop\<close>

lemma review_loop_exit:
  "approved \<or> \<not> iter < MAX_EDITOR_ITERATIONS e \<Longrightarrow>
     review_loop e approved iter w = Inr (approved, iter, w)"
  by (subst review_loop.simps) auto

lemma review_loop_approve:
  assumes "\<not> approved" "iter < MAX_EDITOR_ITERATIONS e"
    and "get_latest_draft (mem w) = Inr d" "review e d w = (True, fb, w1)"
  shows "review_loop e approved iter w = Inr (True, Suc iter, w1)"
  by (subst review_loop.simps) (simp add: assms review_loop_exit)

lemma review_loop_revise:
  assumes "\<not> approved" "iter < MAX_EDITOR_ITERATIONS e"
    and "get_latest_draft (mem w) = Inr d" "review e d w = (False, fb, w1)"
    and "write_draft e w1 (Some fb) = Inr (rd, w2)"
  shows "review_loop e approved iter w =
           review_loop e False (Suc iter) (w2\<lparr>mem := add_draft rd (mem w2)\<rparr>)"
  by (subst review_loop.simps) (simp add: assms)

text \<open>The state after one turn of the loop that did not approve.\<close>

lemma review_not_approved:
  assumes "review e d w = (False, fb, w1)"
  shows "get_feedback_count (mem w) + 1 < MAX_EDITOR_ITERATIONS e"
    and "mem w1 = add_editor_feedback fb (mem w)"
proof -
  have "\<not> fst (review e d w)" using assms by simp
  then show "get_feedback_count (mem w) + 1 < MAX_EDITOR_ITERATIONS e"
    unfolding review_approved by simp
  show "mem w1 = add_editor_feedback fb (mem w)"
    using review_mem [of e d w] assms by simp
qed

lemma review_loop_invariant:
  "\<exists>a' i' w'. review_loop e approved iter w = Inr (a', i', w') \<and>
           iter \<le> i' \<and>
           (i' \<le> MAX_EDITOR_ITERATIONS e \<or> i' = iter) \<and>
           history_extends (mem w) (mem w') \<and>
           get_feedback_count (mem w') = get_feedback_count (mem w) + (i' - iter) \<and>
           (\<not> approved \<and> iter < MAX_EDITOR_ITERATIONS e \<and> iter \<le> get_feedback_count (mem w)
              \<longrightarrow> a' \<and> iter < i') \<and>
           (approved \<longrightarrow> a')"
proof (induction "MAX_EDITOR_ITERATIONS e - iter" arbitrary: iter w approved)
  case 0
  then have "review_loop e approved iter w = Inr (approved, iter, w)"
    by (simp add: review_loop_exit)
  then show ?case using 0 by (simp add: history_extends_refl)
next
  case (Suc n)
  show ?case
  proof (cases "approved")
    case True
    then have "review_loop e approved iter w = Inr (approved, iter, w)"
      by (simp add: review_loop_exit)
    then show ?thesis using True by (auto simp: history_extends_refl)
  next
    case False
    have lt: "iter < MAX_EDITOR_ITERATIONS e" using Suc.hyps(2) by simp
    obtain d where d: "get_latest_draft (mem w) = Inr d"
      by (simp add: get_latest_draft_total)
    obtain a1 fb w1 where r: "review e d w = (a1, fb, w1)"
      by (cases "review e d w")
    have m1: "mem w1 = add_editor_feedback fb (mem w)"
      using review_mem [of e d w] r by simp
    show ?thesis
    proof (cases a1)
      case True
      have r1: "review e d w = (True, fb, w1)" using r True by simp
      have "review_loop e approved iter w = Inr (True, Suc iter, w1)"
        using False lt d r1 by (rule review_loop_approve)
      moreover have "history_extends (mem w) (mem w1)"
        unfolding m1 by (rule mutators_extend)
      moreover have "get_feedback_count (mem w1) = get_feedback_count (mem w) + 1"
        unfolding m1 by (simp add: get_feedback_count_def add_editor_feedback_def)
      ultimately show ?thesis
        using lt False by auto
    next
      case a1: False
      have r0: "review e d w = (False, fb, w1)" using r a1 by simp
      have c: "get_feedback_count (mem w) + 1 < MAX_EDITOR_ITERATIONS e"
        using r0 by (rule review_not_approved)
      obtain rd w2 where wd: "write_draft e w1 (Some fb) = Inr (rd, w2)" and m2: "mem w2 = mem w1"
        using write_draft_total [of e w1 "Some fb"] by blast
      let ?w3 = "w2\<lparr>mem := add_draft rd (mem w2)\<rparr>"
      have step: "review_loop e approved iter w = review_loop e False (Suc iter) ?w3"
        using False lt d r0 wd by (rule review_loop_revise)
      have m3: "mem ?w3 = add_draft rd (add_editor_feedback fb (mem w))"
        by (simp add: m2 m1)
      have cnt: "get_feedback_count (mem ?w3) = get_feedback_count (mem w) + 1"
        unfolding m3 by (simp add: get_feedback_count_def add_draft_def add_editor_feedback_def)
      have ext: "history_extends (mem w) (mem ?w3)"
        unfolding m3 by (meson history_extends_trans mutators_extend)
      have n: "n = MAX_EDITOR_ITERATIONS e - Suc iter" using Suc.hyps(2) by simp
      from Suc.hyps(1) [OF n, of False ?w3] obtain a' i' w' where
        res: "review_loop e False (Suc iter) ?w3 = Inr (a', i', w')" and
        i: "Suc iter \<le> i'" "i' \<le> MAX_EDITOR_ITERATIONS e \<or> i' = Suc iter" and
        e: "history_extends (mem ?w3) (mem w')" and
        k: "get_feedback_count (mem w') = get_feedback_count (mem ?w3) + (i' - Suc iter)" and
        a: "\<not> False \<and> Suc iter < MAX_EDITOR_ITERATIONS e \<and> Suc iter \<le> get_feedback_count (mem ?w3)
              \<longrightarrow> a' \<and> Suc iter < i'"
        by blast
      have "history_extends (mem w) (mem w')"
        using ext e by (rule history_extends_trans)
      then show ?thesis
        using step res i k a c cnt False lt by auto
    qed
  qed
qed

section \<open>Properties of the whole run\<close>

text \<open>The stages of a run, one after the other, with the memory each of them leaves.\<close>

lemma run_blog_pipeline_stages:
  fixes e topic sgo
  defines "sg \<equiv> (case sgo of Some s \<Rightarrow> if s \<noteq> [] then s else DEFAULT_STYLE_GUIDE
                             | None \<Rightarrow> DEFAULT_STYLE_GUIDE)"
  defines "w0 \<equiv> \<lparr>mem = MemoryBank sg, calls = 0\<rparr>"
  shows "\<exists>brief w1 d0 w2 sd od w4 a n w6 r.
      research e topic w0 = (brief, w1) \<and>
      mem w1 = store_research brief (MemoryBank sg) \<and>
      write_draft e w1 None = Inr (d0, w2) \<and>
      mem w2 = mem w1 \<and>
      optimize e d0 topic (w2\<lparr>mem := add_draft d0 (mem w2)\<rparr>) = (od, w4) \<and>
      mem w4 = store_seo_data sd (add_draft d0 (mem w2)) \<and>
      review_loop e False 0 (w4\<lparr>mem := add_draft od (mem w4)\<rparr>) = Inr (a, n, w6) \<and>
      run_blog_pipeline e topic sgo = Inr r \<and>
      final_memory r = mem w6 \<and>
      loop_approved r = a \<and>
      loop_iterations r = n \<and>
      brief_returned r = brief \<and>
      get_latest_draft (mem w6) = Inr (final_draft r) \<and>
      final_article r = format_output_article e (final_draft r) (final_metadata r)"
proof -
  obtain brief w1 where r: "research e topic w0 = (brief, w1)"
    by (cases "research e topic w0")
  have m1: "mem w1 = store_research brief (MemoryBank sg)"
    using research_mem [of e topic w0] r by (simp add: w0_def)
  obtain d0 w2 where wd: "write_draft e w1 None = Inr (d0, w2)" and m2: "mem w2 = mem w1"
    using write_draft_total [of e w1 None] by blast
  let ?w3 = "w2\<lparr>mem := add_draft d0 (mem w2)\<rparr>"
  obtain od w4 where o: "optimize e d0 topic ?w3 = (od, w4)"
    by (cases "optimize e d0 topic ?w3")
  obtain sd where m4: "mem w4 = store_seo_data sd (add_draft d0 (mem w2))"
    using optimize_mem [of e d0 topic ?w3] o by auto
  let ?w5 = "w4\<lparr>mem := add_draft od (mem w4)\<rparr>"
  obtain a n w6 where l: "review_loop e False 0 ?w5 = Inr (a, n, w6)"
    using review_loop_invariant [where e = e and approved = False and iter = 0 and w = ?w5]
    by auto
  obtain fin where f: "get_latest_draft (mem w6) = Inr fin"
    by (simp add: get_latest_draft_total)
  let ?kw = "case get_seo_data (mem w6) of Some sd \<Rightarrow> seo_keywords sd | None \<Rightarrow> []"
  obtain tags w7 where g: "generate_meta_tags e fin ?kw topic w6 = (tags, w7)"
    by (cases "generate_meta_tags e fin ?kw topic w6")
  have m7: "mem w7 = mem w6"
    using generate_meta_tags_mem [of e fin ?kw topic w6] g by simp
  let ?md = "\<lparr>md_title = meta_title tags, md_date = ''2025-11-29'',
                md_keywords = ?kw, md_sources = sources brief\<rparr>"
  let ?r = "\<lparr>final_memory = mem w7, loop_approved = a, loop_iterations = n,
             brief_returned = brief, final_draft = fin, final_meta_tags = tags,
             final_metadata = ?md, final_article = format_output_article e fin ?md\<rparr>"
  have run: "run_blog_pipeline e topic sgo = Inr ?r"
    unfolding run_blog_pipeline_def Let_def sg_def [symmetric] w0_def [symmetric]
    by (simp add: r wd o l f g)
  have "research e topic w0 = (brief, w1) \<and>
      mem w1 = store_research brief (MemoryBank sg) \<and>
      write_draft e w1 None = Inr (d0, w2) \<and>
      mem w2 = mem w1 \<and>
      optimize e d0 topic (w2\<lparr>mem := add_draft d0 (mem w2)\<rparr>) = (od, w4) \<and>
      mem w4 = store_seo_data sd (add_draft d0 (mem w2)) \<and>
      review_loop e False 0 (w4\<lparr>mem := add_draft od (mem w4)\<rparr>) = Inr (a, n, w6) \<and>
      run_blog_pipeline e topic sgo = Inr ?r \<and>
      final_memory ?r = mem w6 \<and>
      loop_approved ?r = a \<and>
      loop_iterations ?r = n \<and>
      brief_returned ?r = brief \<and>
      get_latest_draft (mem w6) = Inr (final_draft ?r) \<and>
      final_article ?r = format_output_article e (final_draft ?r) (final_metadata ?r)"
    using r m1 wd m2 o m4 l run f m7 by simp
  then show ?thesis by blast
qed

lemma review_loop_from_start:
  assumes "1 \<le> MAX_EDITOR_ITERATIONS e"
  shows "\<exists>n w'. review_loop e False 0 w = Inr (True, n, w') \<and> 1 \<le> n \<and>
           n \<le> MAX_EDITOR_ITERATIONS e \<and>
           get_feedback_count (mem w') = get_feedback_count (mem w) + n"
  using review_loop_invariant [where e = e and approved = False and iter = 0 and w = w] assms by auto

lemma run_blog_pipeline_summary:
  "\<exists>r. run_blog_pipeline e topic sgo = Inr r \<and>
        loop_iterations r \<le> MAX_EDITOR_ITERATIONS e \<and>
        (1 \<le> MAX_EDITOR_ITERATIONS e \<longrightarrow> loop_approved r \<and> 1 \<le> loop_iterations r) \<and>
        get_feedback_count (final_memory r) = loop_iterations r \<and>
        2 \<le> length (drafts (final_memory r)) \<and>
        get_latest_draft (final_memory r) = Inr (final_draft r)"
proof -
  let ?sg = "case sgo of Some s \<Rightarrow> if s \<noteq> [] then s else DEFAULT_STYLE_GUIDE
                             | None \<Rightarrow> DEFAULT_STYLE_GUIDE"
  from run_blog_pipeline_stages [of e topic sgo]
  obtain brief d0 sd od w4 a n w6 r and w1 w2 :: world where
    m1: "mem w1 = store_research brief (MemoryBank ?sg)" and
    m2: "mem w2 = mem w1" and
    m4: "mem w4 = store_seo_data sd (add_draft d0 (mem w2))" and
    l: "review_loop e False 0 (w4\<lparr>mem := add_draft od (mem w4)\<rparr>) = Inr (a, n, w6)" and
    run: "run_blog_pipeline e topic sgo = Inr r" and
    r: "final_memory r = mem w6" "loop_approved r = a" "loop_iterations r = n" and
    f: "get_latest_draft (mem w6) = Inr (final_draft r)"
    by blast
  let ?w5 = "w4\<lparr>mem := add_draft od (mem w4)\<rparr>"
  have m5: "mem ?w5 = add_draft od (store_seo_data sd (add_draft d0 (store_research brief (MemoryBank ?sg))))"
    by (simp add: m4 m2 m1)
  have c5: "get_feedback_count (mem ?w5) = 0" "length (drafts (mem ?w5)) = 2"
    unfolding m5
    by (simp_all add: get_feedback_count_def add_draft_def store_seo_data_def store_research_def
        MemoryBank_def)
  have inv: "0 \<le> n \<and> (n \<le> MAX_EDITOR_ITERATIONS e \<or> n = 0) \<and>
      history_extends (mem ?w5) (mem w6) \<and>
      get_feedback_count (mem w6) = get_feedback_count (mem ?w5) + (n - 0) \<and>
      (\<not> False \<and> 0 < MAX_EDITOR_ITERATIONS e \<and> 0 \<le> get_feedback_count (mem ?w5) \<longrightarrow> a \<and> 0 < n)"
    using review_loop_invariant [where e = e and approved = False and iter = 0 and w = ?w5] l by simp
  have "2 \<le> length (drafts (mem w6))"
    using inv c5(2) history_extends_length [of "mem ?w5" "mem w6"] by simp
  then show ?thesis
    using run r inv c5(1) f by auto
qed

text \<open>
  Claim C1. For every limit \<open>MAX_EDITOR_ITERATIONS\<close> of at least one, the review loop started
  by the controller returns, it leaves with the draft approved, and it has made at least one
  and at most \<open>MAX_EDITOR_ITERATIONS\<close> calls of \<open>review\<close>: the counter of the loop and the
  number of feedback records added both equal that number of calls. The run as a whole
  reaches the final output stage with the same bounds.
\<close>

theorem C1_review_loop_terminates:
  assumes "1 \<le> MAX_EDITOR_ITERATIONS e"
  shows "(\<exists>n w'. review_loop e False 0 w = Inr (True, n, w') \<and> 1 \<le> n \<and>
            n \<le> MAX_EDITOR_ITERATIONS e \<and>
            get_feedback_count (mem w') = get_feedback_count (mem w) + n) \<and>
         (\<exists>r. run_blog_pipeline e topic sgo = Inr r \<and> loop_approved r \<and>
            1 \<le> loop_iterations r \<and> loop_iterations r \<le> MAX_EDITOR_ITERATIONS e \<and>
            get_feedback_count (final_memory r) = loop_iterations r)"
proof
  show "\<exists>n w'. review_loop e False 0 w = Inr (True, n, w') \<and> 1 \<le> n \<and>
            n \<le> MAX_EDITOR_ITERATIONS e \<and>
            get_feedback_count (mem w') = get_feedback_count (mem w) + n"
    using assms by (rule review_loop_from_start)
  show "\<exists>r. run_blog_pipeline e topic sgo = Inr r \<and> loop_approved r \<and>
            1 \<le> loop_iterations r \<and> loop_iterations r \<le> MAX_EDITOR_ITERATIONS e \<and>
            get_feedback_count (final_memory r) = loop_iterations r"
    using run_blog_pipeline_summary [of e topic sgo] assms by auto
qed

theorem C1_review_loop_terminates_witness:
  "1 \<le> MAX_EDITOR_ITERATIONS (stub_env 3 7 4 (always_fails ''quota exceeded'')) \<and>
   (\<exists>n w'. review_loop (stub_env 3 7 4 (always_fails ''quota exceeded'')) False 0
              \<lparr>mem = MemoryBank [], calls = 0\<rparr> = Inr (True, n, w') \<and> 1 \<le> n \<and> n \<le> 3 \<and>
            get_feedback_count (mem w') = n) \<and>
   (\<exists>r. run_blog_pipeline (stub_env 3 7 4 (always_fails ''quota exceeded'')) ''AI agents'' None = Inr r \<and>
        loop_approved r \<and> 1 \<le> loop_iterations r \<and> loop_iterations r \<le> 3 \<and>
        get_feedback_count (final_memory r) = loop_iterations r)"
proof -
  have h: "1 \<le> MAX_EDITOR_ITERATIONS (stub_env 3 7 4 (always_fails ''quota exceeded''))"
    by (simp add: stub_env_def)
  have k: "MAX_EDITOR_ITERATIONS (stub_env 3 7 4 (always_fails ''quota exceeded'')) = 3"
    "get_feedback_count (mem \<lparr>mem = MemoryBank [], calls = 0\<rparr>) = 0"
    by (simp_all add: stub_env_def get_feedback_count_def MemoryBank_def)
  show ?thesis
    using C1_review_loop_terminates [OF h, of "\<lparr>mem = MemoryBank [], calls = 0\<rparr>" "''AI agents''" None] h
    unfolding k by simp
qed

text \<open>
  Claim C2. A call of \<open>review\<close> approves exactly when the combined score is at least the
  quality threshold or the iteration number, one more than the number of feedback records
  stored so far, has reached \<open>MAX_EDITOR_ITERATIONS\<close>. The combined score is the plain average
  of the result of the quality scorer and the score of the detailed review, which is the score
  the parser read from the reply when the generation call succeeded; it is the score stored in
  the feedback record. In particular the review whose iteration number has reached the limit
  approves whatever the scores are.
\<close>

theorem C2_review_approval:
  "(fst (review e draft w) \<longleftrightarrow>
      (calculate_quality_score e draft + score (fst (detailed_review e draft w))) / 2
         \<ge> QUALITY_THRESHOLD e
      \<or> get_feedback_count (mem w) + 1 \<ge> MAX_EDITOR_ITERATIONS e) \<and>
   score (fst (snd (review e draft w))) =
      (calculate_quality_score e draft + score (fst (detailed_review e draft w))) / 2 \<and>
   last (editor_feedback (mem (snd (snd (review e draft w))))) = fst (snd (review e draft w)) \<and>
   (generate_content e (calls w) = Inr rsp \<and> parse_review (resp_text rsp) = Inr pf \<longrightarrow>
      score (fst (detailed_review e draft w)) = score pf) \<and>
   (get_feedback_count (mem w) + 1 \<ge> MAX_EDITOR_ITERATIONS e \<longrightarrow> fst (review e draft w))"
proof (intro conjI impI)
  show "fst (review e draft w) \<longleftrightarrow>
      (calculate_quality_score e draft + score (fst (detailed_review e draft w))) / 2
         \<ge> QUALITY_THRESHOLD e
      \<or> get_feedback_count (mem w) + 1 \<ge> MAX_EDITOR_ITERATIONS e"
    by (rule review_approved)
  show "score (fst (snd (review e draft w))) =
      (calculate_quality_score e draft + score (fst (detailed_review e draft w))) / 2"
    by (simp add: review_feedback)
  show "last (editor_feedback (mem (snd (snd (review e draft w))))) = fst (snd (review e draft w))"
    by (simp add: review_mem add_editor_feedback_def)
  show "score (fst (detailed_review e draft w)) = score pf"
    if "generate_content e (calls w) = Inr rsp \<and> parse_review (resp_text rsp) = Inr pf"
    using that by (simp add: detailed_review_def generate_def)
  show "fst (review e draft w)" if "get_feedback_count (mem w) + 1 \<ge> MAX_EDITOR_ITERATIONS e"
    using that by (simp add: review_approved)
qed

theorem C2_review_approval_witness:
  "generate_content (stub_env 3 7 4 (replies [''SCORE: 6'']))
     (calls \<lparr>mem = (MemoryBank [])\<lparr>editor_feedback := [default_feedback, default_feedback]\<rparr>, calls = 0\<rparr>)
     = Inr \<lparr>resp_text = ''SCORE: 6'', grounding_metadata = None\<rparr> \<and>
   parse_review ''SCORE: 6'' = Inr (default_feedback\<lparr>score := 6\<rparr>) \<and>
   MAX_EDITOR_ITERATIONS (stub_env 3 7 4 (replies [''SCORE: 6''])) \<le>
     get_feedback_count (mem \<lparr>mem = (MemoryBank [])\<lparr>editor_feedback := [default_feedback, default_feedback]\<rparr>, calls = 0\<rparr>) + 1 \<and>
   fst (review (stub_env 3 7 4 (replies [''SCORE: 6''])) ''draft''
     \<lparr>mem = (MemoryBank [])\<lparr>editor_feedback := [default_feedback, default_feedback]\<rparr>, calls = 0\<rparr>) \<and>
   score (fst (snd (review (stub_env 3 7 4 (replies [''SCORE: 6''])) ''draft''
     \<lparr>mem = (MemoryBank [])\<lparr>editor_feedback := [default_feedback, default_feedback]\<rparr>, calls = 0\<rparr>))) = 5 \<and>
   \<not> (5 \<ge> QUALITY_THRESHOLD (stub_env 3 7 4 (replies [''SCORE: 6''])))"
proof -
  let ?e = "stub_env 3 7 4 (replies [''SCORE: 6''])"
  let ?w = "\<lparr>mem = (MemoryBank [])\<lparr>editor_feedback := [default_feedback, default_feedback]\<rparr>, calls = 0\<rparr>"
  let ?rsp = "\<lparr>resp_text = ''SCORE: 6'', grounding_metadata = None\<rparr>"
  have g: "generate_content ?e (calls ?w) = Inr ?rsp"
    by (simp add: stub_env_def replies_def)
  have p: "parse_review (resp_text ?rsp) = Inr (default_feedback\<lparr>score := 6\<rparr>)"
    by code_simp
  have k: "MAX_EDITOR_ITERATIONS ?e \<le> get_feedback_count (mem ?w) + 1"
    by (simp add: stub_env_def get_feedback_count_def MemoryBank_def)
  have c: "calculate_quality_score ?e ''draft'' = 4" "QUALITY_THRESHOLD ?e = 7"
    by (simp_all add: stub_env_def)
  show ?thesis
    using C2_review_approval [of ?e "''draft''" ?w ?rsp "default_feedback\<lparr>score := 6\<rparr>"] g p k
    by (simp add: c)
qed



section \<open>Failing generation calls\<close>


lemma latest_after_seo: "get_latest_draft (store_seo_data sd m) = get_latest_draft m"
  by (simp add: get_latest_draft_total store_seo_data_def)

lemma latest_after_draft: "get_latest_draft (add_draft d m) = Inr d"
  by (simp add: get_latest_draft_total add_draft_def)

lemma revise_draft_failed:
  assumes "generate_content e (calls w) = Inl err" "get_latest_draft (mem w) = Inr d"
  shows "write_draft e w (Some fb) = Inr (d, w\<lparr>calls := Suc (calls w)\<rparr>)"
  using assms by (simp add: write_draft_def revise_draft_def generate_def Let_def)

lemma initial_draft_failed:
  assumes "generate_content e (calls w) = Inl err"
  shows "write_draft e w None =
           Inr (''# '' @ (case get_research (mem w) of Some rb \<Rightarrow> rb_topic rb
                          | None \<Rightarrow> ''Unknown Topic'')
                 @ ''\<newline>\<newline>[Draft generation failed: '' @ str_of_error err @ '']'',
                w\<lparr>calls := Suc (calls w)\<rparr>)"
  using assms by (simp add: write_draft_def create_initial_draft_def generate_def Let_def)







text \<open>
  Claim C8. When the generation call of the draft stage fails during a revision,
  \<open>write_draft\<close> returns the latest draft of the memory, unchanged; the entry the controller
  then appends is that same text, so the latest draft stays what it was and the earlier
  entries are kept. When the call fails on the first draft, \<open>write_draft\<close> returns a
  placeholder made of the topic and the text of the error.
\<close>

theorem C8_draft_failure:
  assumes "generate_content e (calls w) = Inl err"
  shows "write_draft e w (Some fb) =
           Inr (if drafts (mem w) = [] then [] else last (drafts (mem w)),
                w\<lparr>calls := Suc (calls w)\<rparr>) \<and>
         (\<exists>d. get_latest_draft (mem w) = Inr d \<and>
              write_draft e w (Some fb) = Inr (d, w\<lparr>calls := Suc (calls w)\<rparr>) \<and>
              get_latest_draft (add_draft d (mem w)) = Inr d \<and>
              drafts (add_draft d (mem w)) = drafts (mem w) @ [d]) \<and>
         write_draft e w None =
           Inr (''# '' @ (case get_research (mem w) of Some rb \<Rightarrow> rb_topic rb
                          | None \<Rightarrow> ''Unknown Topic'')
                 @ ''\<newline>\<newline>[Draft generation failed: '' @ str_of_error err @ '']'',
                w\<lparr>calls := Suc (calls w)\<rparr>) \<and>
         sublist (str_of_error err)
           (''# '' @ (case get_research (mem w) of Some rb \<Rightarrow> rb_topic rb
                          | None \<Rightarrow> ''Unknown Topic'')
                 @ ''\<newline>\<newline>[Draft generation failed: '' @ str_of_error err @ '']'')"
proof (intro conjI)
  have d: "get_latest_draft (mem w) = Inr (if drafts (mem w) = [] then [] else last (drafts (mem w)))"
    by (rule get_latest_draft_total)
  show "write_draft e w (Some fb) =
           Inr (if drafts (mem w) = [] then [] else last (drafts (mem w)),
                w\<lparr>calls := Suc (calls w)\<rparr>)"
    using assms d by (rule revise_draft_failed)
  moreover have "drafts (add_draft x (mem w)) = drafts (mem w) @ [x]" for x
    by (simp add: add_draft_def)
  ultimately show "\<exists>d. get_latest_draft (mem w) = Inr d \<and>
              write_draft e w (Some fb) = Inr (d, w\<lparr>calls := Suc (calls w)\<rparr>) \<and>
              get_latest_draft (add_draft d (mem w)) = Inr d \<and>
              drafts (add_draft d (mem w)) = drafts (mem w) @ [d]"
    using d by (simp add: latest_after_draft)
  show "write_draft e w None =
           Inr (''# '' @ (case get_research (mem w) of Some rb \<Rightarrow> rb_topic rb
                          | None \<Rightarrow> ''Unknown Topic'')
                 @ ''\<newline>\<newline>[Draft generation failed: '' @ str_of_error err @ '']'',
                w\<lparr>calls := Suc (calls w)\<rparr>)"
    using assms by (rule initial_draft_failed)
  show "sublist (str_of_error err)
           (''# '' @ (case get_research (mem w) of Some rb \<Rightarrow> rb_topic rb
                          | None \<Rightarrow> ''Unknown Topic'')
                 @ ''\<newline>\<newline>[Draft generation failed: '' @ str_of_error err @ '']'')"
    unfolding sublist_def
    by (rule exI [of _ "''# '' @ (case get_research (mem w) of Some rb \<Rightarrow> rb_topic rb
                          | None \<Rightarrow> ''Unknown Topic'') @ ''\<newline>\<newline>[Draft generation failed: ''"],
        rule exI [of _ "'']''"]) simp
qed

theorem C8_draft_failure_witness:
  "generate_content (stub_env 3 7 4 (always_fails ''timeout''))
     (calls \<lparr>mem = add_draft ''## Second'' (add_draft ''## First'' (MemoryBank [])), calls = 5\<rparr>)
     = Inl (GenerationError ''timeout'') \<and>
   write_draft (stub_env 3 7 4 (always_fails ''timeout''))
     \<lparr>mem = add_draft ''## Second'' (add_draft ''## First'' (MemoryBank [])), calls = 5\<rparr>
     (Some default_feedback)
     = Inr (''## Second'',
            \<lparr>mem = add_draft ''## Second'' (add_draft ''## First'' (MemoryBank [])), calls = 6\<rparr>) \<and>
   write_draft (stub_env 3 7 4 (always_fails ''timeout''))
     \<lparr>mem = add_draft ''## Second'' (add_draft ''## First'' (MemoryBank [])), calls = 5\<rparr> None
     = Inr (''# Unknown Topic\<newline>\<newline>[Draft generation failed: timeout]'',
            \<lparr>mem = add_draft ''## Second'' (add_draft ''## First'' (MemoryBank [])), calls = 6\<rparr>)"
proof -
  let ?e = "stub_env 3 7 4 (always_fails ''timeout'')"
  let ?w = "\<lparr>mem = add_draft ''## Second'' (add_draft ''## First'' (MemoryBank [])), calls = 5\<rparr>"
  have h: "generate_content ?e (calls ?w) = Inl (GenerationError ''timeout'')"
    by (simp add: stub_env_def always_fails_def)
  have m: "drafts (mem ?w) = [''## First'', ''## Second'']" "get_research (mem ?w) = None"
    by (simp_all add: add_draft_def MemoryBank_def get_research_def)
  show ?thesis
    using C8_draft_failure [OF h, of default_feedback] h
    unfolding m by simp
qed







end
